theory Spec2Isabelle
  imports Main
begin

section \<open>MediTrust: the contract utilities of the web client\<close>

text \<open>
  A shallow embedding of \<^verbatim>\<open>meditrust-lite/src/app/utils/contractUtils.js\<close>.
  The module keeps one global, \<^verbatim>\<open>contractAddress\<close>, persists it in the browser's
  \<^verbatim>\<open>localStorage\<close>, and wraps seven methods of the deployed contract. Each wrapper
  is an \<^verbatim>\<open>async\<close> function; here an \<^verbatim>\<open>await\<close> is sequential composition, a
  rejected promise is an error value, and everything the module does to the outside
  (wallet prompt, contract call, console) is appended to a trace.
\<close>

subsection \<open>Values\<close>

text \<open>
  A JavaScript number, as far as this module produces one: a non-negative integral
  double or \<^verbatim>\<open>Infinity\<close>.
\<close>

datatype number = Finite nat | PosInfinity

fun bit_length :: "nat \<Rightarrow> nat" where
  "bit_length n = (if n = 0 then 0 else Suc (bit_length (n div 2)))"

declare bit_length.simps [simp del]

text \<open>
  \<^verbatim>\<open>Number(x)\<close> for an unsigned integer \<open>x\<close> decoded from the chain (a plain
  number, a \<^verbatim>\<open>BigNumber\<close> or a \<^verbatim>\<open>bigint\<close>): the nearest double, ties to the even
  significand. Below \<open>2^53\<close> every integer is a double; above, the value keeps its 53
  leading bits; from \<open>2^1024 - 2^970\<close> on the result is \<^verbatim>\<open>Infinity\<close>.
\<close>

definition Number :: "nat \<Rightarrow> number" where
  "Number n =
     (if n < 2 ^ 53 then Finite n
      else
        let e = bit_length n - 53;
            q = n div 2 ^ e;
            r = n mod 2 ^ e;
            q' = (if 2 ^ e < 2 * r \<or> (2 * r = 2 ^ e \<and> odd q) then q + 1 else q);
            v = q' * 2 ^ e
        in if v < 2 ^ 1024 then Finite v else PosInfinity)"

text \<open>The doubles among the values of \<^typ>\<open>number\<close>: at most 53 significant bits.\<close>

fun is_double :: "number \<Rightarrow> bool" where
  "is_double PosInfinity = True"
| "is_double (Finite v) = (v < 2 ^ 1024 \<and> v mod 2 ^ (bit_length v - 53) = 0)"

text \<open>The values stored in the object literals the module returns.\<close>

datatype jsval = JString string | JNumber number

text \<open>An object literal: its properties in the order they are written.\<close>

type_synonym object = "(string \<times> jsval) list"

text \<open>
  A record as the contract's ABI decodes it: the struct of the external contract with
  its two integer fields still wide.
\<close>

record chain_record =
  ipfsHash :: string
  owner :: string
  timestamp :: nat
  recordType :: string
  size_field :: nat

subsection \<open>Errors and effects\<close>

text \<open>
  The errors an operation can end with. \<open>ReferenceError\<close> is what reading
  \<^verbatim>\<open>window.ethereum\<close> raises where \<^verbatim>\<open>window\<close> is not declared; the next two are
  the \<^verbatim>\<open>new Error(...)\<close> of \<^verbatim>\<open>getProviderAndSigner\<close> and \<^verbatim>\<open>getContract\<close>;
  \<open>RemoteError e\<close> is the error object \<open>e\<close> with which the wallet or the contract
  rejected, the constructor only marking where it came from.
\<close>

datatype 'e error =
    ReferenceError
  | MetaMaskNotInstalled
  | ContractAddressNotSet
  | RemoteError 'e

text \<open>A contract method together with its arguments.\<close>

datatype call =
    Call_addRecord string string nat
  | Call_grantAccess nat string
  | Call_revokeAccess nat string
  | Call_hasAccess nat string
  | Call_getRecord nat
  | Call_getMyRecords
  | Call_getAccessibleRecords

datatype 'e effect =
    RequestAccounts
  | NewWeb3Provider
  | GetSigner
  | NewContract string
  | Invoke string call
  | TxWait
  | ConsoleError string "'e error"

fun is_Invoke :: "'e effect \<Rightarrow> bool" where
  "is_Invoke (Invoke a c) = True"
| "is_Invoke _ = False"

text \<open>
  The interactions that leave the page: the wallet's account request, a contract method,
  waiting for a transaction. Constructing the provider, signer and contract handle and
  writing to the console are local.
\<close>

fun is_network :: "'e effect \<Rightarrow> bool" where
  "is_network RequestAccounts = True"
| "is_network (Invoke a c) = True"
| "is_network TxWait = True"
| "is_network _ = False"

subsection \<open>The module's state and its environment\<close>

text \<open>
  The global \<^verbatim>\<open>contractAddress\<close>, the browser's \<^verbatim>\<open>localStorage\<close>, and the trace
  of effects so far.
\<close>

record 'e session =
  contractAddress :: string
  localStorage :: "string \<rightharpoonup> string"
  trace :: "'e effect list"

text \<open>
  Where the module runs: without \<^verbatim>\<open>window\<close> (server-side rendering), in a browser
  without \<^verbatim>\<open>window.ethereum\<close>, or with a wallet whose \<^verbatim>\<open>eth_requestAccounts\<close>
  request resolves to the accounts or rejects.
\<close>

datatype 'e browser = NoWindow | NoWallet | Wallet "'e + string list"

text \<open>
  The environment of one call: the browser, and what each method of the contract at a
  given address answers (\<open>Inl\<close> a rejection). \<open>tx_wait\<close> is \<^verbatim>\<open>tx.wait()\<close>, whose
  receipt the module drops.
\<close>

record ('e, 't) world =
  browser :: "'e browser"
  contract_addRecord :: "string \<Rightarrow> string \<Rightarrow> string \<Rightarrow> nat \<Rightarrow> 'e + 't"
  contract_grantAccess :: "string \<Rightarrow> nat \<Rightarrow> string \<Rightarrow> 'e + 't"
  contract_revokeAccess :: "string \<Rightarrow> nat \<Rightarrow> string \<Rightarrow> 'e + 't"
  contract_hasAccess :: "string \<Rightarrow> nat \<Rightarrow> string \<Rightarrow> 'e + bool"
  contract_getRecord :: "string \<Rightarrow> nat \<Rightarrow> 'e + chain_record"
  contract_getMyRecords :: "string \<Rightarrow> 'e + chain_record list"
  contract_getAccessibleRecords :: "string \<Rightarrow> 'e + chain_record list"
  tx_wait :: "'t \<Rightarrow> 'e + unit"

datatype provider = Web3Provider
datatype signer = JsonRpcSigner provider

record contract =
  address :: string
  contract_signer :: signer

subsection \<open>Asynchronous functions\<close>

type_synonym ('e, 'a) js = "'e session \<Rightarrow> ('e error + 'a) \<times> 'e session"

definition js_return :: "'a \<Rightarrow> ('e, 'a) js" where
  "js_return x s = (Inr x, s)"

definition js_throw :: "'e error \<Rightarrow> ('e, 'a) js" where
  "js_throw err s = (Inl err, s)"

text \<open>\<^verbatim>\<open>const x = await m; k x\<close>: a rejection of \<open>m\<close> skips the rest.\<close>

definition js_bind :: "('e, 'a) js \<Rightarrow> ('a \<Rightarrow> ('e, 'b) js) \<Rightarrow> ('e, 'b) js" where
  "js_bind m k s = (case m s of (Inl err, s') \<Rightarrow> (Inl err, s') | (Inr x, s') \<Rightarrow> k x s')"

text \<open>\<^verbatim>\<open>try { m } catch (error) { h error }\<close>\<close>

definition js_try :: "('e, 'a) js \<Rightarrow> ('e error \<Rightarrow> ('e, 'a) js) \<Rightarrow> ('e, 'a) js" where
  "js_try m h s = (case m s of (Inl err, s') \<Rightarrow> h err s' | (Inr x, s') \<Rightarrow> (Inr x, s'))"

definition emit :: "'e effect \<Rightarrow> ('e, unit) js" where
  "emit ev s = (Inr (), s\<lparr>trace := trace s @ [ev]\<rparr>)"

text \<open>An awaited call to the outside: the effect happens, then it resolves or rejects.\<close>

definition external :: "'e effect \<Rightarrow> 'e + 'a \<Rightarrow> ('e, 'a) js" where
  "external ev answer =
     js_bind (emit ev) (\<lambda>_.
       case answer of Inl e \<Rightarrow> js_throw (RemoteError e) | Inr x \<Rightarrow> js_return x)"

text \<open>\<^verbatim>\<open>console.error(label, error); throw error;\<close>, the handler of every operation.\<close>

definition log_and_rethrow :: "string \<Rightarrow> 'e error \<Rightarrow> ('e, 'a) js" where
  "log_and_rethrow label err =
     js_bind (emit (ConsoleError label err)) (\<lambda>_. js_throw err)"

subsection \<open>Connection and configuration\<close>

definition getProviderAndSigner :: "('e, 't) world \<Rightarrow> ('e, provider \<times> signer) js" where
  "getProviderAndSigner w =
     (case browser w of
        NoWindow \<Rightarrow> js_throw ReferenceError
      | NoWallet \<Rightarrow> js_throw MetaMaskNotInstalled
      | Wallet answer \<Rightarrow>
          js_bind (external RequestAccounts answer) (\<lambda>_.
          js_bind (emit NewWeb3Provider) (\<lambda>_.
          js_bind (emit GetSigner) (\<lambda>_.
          js_return (Web3Provider, JsonRpcSigner Web3Provider)))))"

definition getContract :: "signer \<Rightarrow> ('e, contract) js" where
  "getContract sg s =
     (if contractAddress s = [] then js_throw ContractAddressNotSet s
      else js_bind (emit (NewContract (contractAddress s))) (\<lambda>_.
           js_return \<lparr>address = contractAddress s, contract_signer = sg\<rparr>) s)"

definition storage_key :: string where
  "storage_key = ''mediTrustContractAddress''"

definition setContractAddress :: "('e, 't) world \<Rightarrow> string \<Rightarrow> 'e session \<Rightarrow> 'e session" where
  "setContractAddress w addr s =
     (let s1 = s\<lparr>contractAddress := addr\<rparr>
      in if browser w \<noteq> NoWindow
         then s1\<lparr>localStorage := (localStorage s1)(storage_key \<mapsto> addr)\<rparr>
         else s1)"

definition initContractAddress :: "('e, 't) world \<Rightarrow> 'e session \<Rightarrow> 'e session" where
  "initContractAddress w s =
     (if browser w \<noteq> NoWindow
      then (case localStorage s storage_key of
              None \<Rightarrow> s
            | Some savedAddress \<Rightarrow>
                if savedAddress \<noteq> [] then s\<lparr>contractAddress := savedAddress\<rparr> else s)
      else s)"

text \<open>
  Loading the module: \<^verbatim>\<open>process.env.NEXT_PUBLIC_CONTRACT_ADDRESS || ''\<close>, over
  whatever the browser has stored.
\<close>

definition startup :: "string option \<Rightarrow> (string \<rightharpoonup> string) \<Rightarrow> 'e session" where
  "startup env stored =
     \<lparr>contractAddress = (case env of None \<Rightarrow> [] | Some v \<Rightarrow> if v \<noteq> [] then v else []),
      localStorage = stored,
      trace = []\<rparr>"

subsection \<open>The record operations\<close>

definition addRecord :: "('e, 't) world \<Rightarrow> string \<Rightarrow> string \<Rightarrow> nat \<Rightarrow> ('e, 't) js" where
  "addRecord w ipfsHash' recordType' fileSize =
     js_try
       (js_bind (getProviderAndSigner w) (\<lambda>(pr, sg).
        js_bind (getContract sg) (\<lambda>c.
        js_bind (external (Invoke (address c) (Call_addRecord ipfsHash' recordType' fileSize))
                   (contract_addRecord w (address c) ipfsHash' recordType' fileSize)) (\<lambda>tx.
        js_bind (external TxWait (tx_wait w tx)) (\<lambda>_.
        js_return tx)))))
       (log_and_rethrow ''Error adding record to blockchain:'')"

definition grantAccess :: "('e, 't) world \<Rightarrow> nat \<Rightarrow> string \<Rightarrow> ('e, 't) js" where
  "grantAccess w recordId doctorAddress =
     js_try
       (js_bind (getProviderAndSigner w) (\<lambda>(pr, sg).
        js_bind (getContract sg) (\<lambda>c.
        js_bind (external (Invoke (address c) (Call_grantAccess recordId doctorAddress))
                   (contract_grantAccess w (address c) recordId doctorAddress)) (\<lambda>tx.
        js_bind (external TxWait (tx_wait w tx)) (\<lambda>_.
        js_return tx)))))
       (log_and_rethrow ''Error granting access:'')"

definition revokeAccess :: "('e, 't) world \<Rightarrow> nat \<Rightarrow> string \<Rightarrow> ('e, 't) js" where
  "revokeAccess w recordId doctorAddress =
     js_try
       (js_bind (getProviderAndSigner w) (\<lambda>(pr, sg).
        js_bind (getContract sg) (\<lambda>c.
        js_bind (external (Invoke (address c) (Call_revokeAccess recordId doctorAddress))
                   (contract_revokeAccess w (address c) recordId doctorAddress)) (\<lambda>tx.
        js_bind (external TxWait (tx_wait w tx)) (\<lambda>_.
        js_return tx)))))
       (log_and_rethrow ''Error revoking access:'')"

text \<open>
  The source binds the answer to a local constant that is itself called
  \<^verbatim>\<open>hasAccess\<close>; the method is reached through \<^verbatim>\<open>contract.hasAccess\<close>, a
  property of the handle, so the local name hides nothing that the body uses.
\<close>

definition hasAccess :: "('e, 't) world \<Rightarrow> nat \<Rightarrow> string \<Rightarrow> ('e, bool) js" where
  "hasAccess w recordId addr =
     js_try
       (js_bind (getProviderAndSigner w) (\<lambda>(pr, sg).
        js_bind (getContract sg) (\<lambda>c.
        js_bind (external (Invoke (address c) (Call_hasAccess recordId addr))
                   (contract_hasAccess w (address c) recordId addr)) (\<lambda>hasAccess'.
        js_return hasAccess'))))
       (log_and_rethrow ''Error checking access:'')"

definition getRecord :: "('e, 't) world \<Rightarrow> nat \<Rightarrow> ('e, object) js" where
  "getRecord w recordId =
     js_try
       (js_bind (getProviderAndSigner w) (\<lambda>(pr, sg).
        js_bind (getContract sg) (\<lambda>c.
        js_bind (external (Invoke (address c) (Call_getRecord recordId))
                   (contract_getRecord w (address c) recordId)) (\<lambda>record.
        js_return
          [(''ipfsHash'', JString (ipfsHash record)),
           (''owner'', JString (owner record)),
           (''timestamp'', JNumber (Number (timestamp record))),
           (''recordType'', JString (recordType record)),
           (''size'', JNumber (Number (size_field record)))]))))
       (log_and_rethrow ''Error getting record:'')"

text \<open>\<^verbatim>\<open>records.map((record, index) => ...)\<close> runs over the positions from 0.\<close>

definition getMyRecords :: "('e, 't) world \<Rightarrow> ('e, object list) js" where
  "getMyRecords w =
     js_try
       (js_bind (getProviderAndSigner w) (\<lambda>(pr, sg).
        js_bind (getContract sg) (\<lambda>c.
        js_bind (external (Invoke (address c) Call_getMyRecords)
                   (contract_getMyRecords w (address c))) (\<lambda>records.
        js_return
          (map (\<lambda>(index, record).
                  [(''id'', JNumber (Finite index)),
                   (''ipfsHash'', JString (ipfsHash record)),
                   (''timestamp'', JNumber (Number (timestamp record))),
                   (''recordType'', JString (recordType record)),
                   (''size'', JNumber (Number (size_field record)))])
               (enumerate 0 records))))))
       (log_and_rethrow ''Error getting my records:'')"

definition getAccessibleRecords :: "('e, 't) world \<Rightarrow> ('e, object list) js" where
  "getAccessibleRecords w =
     js_try
       (js_bind (getProviderAndSigner w) (\<lambda>(pr, sg).
        js_bind (getContract sg) (\<lambda>c.
        js_bind (external (Invoke (address c) Call_getAccessibleRecords)
                   (contract_getAccessibleRecords w (address c))) (\<lambda>records.
        js_return
          (map (\<lambda>(index, record).
                  [(''id'', JNumber (Finite index)),
                   (''ipfsHash'', JString (ipfsHash record)),
                   (''owner'', JString (owner record)),
                   (''timestamp'', JNumber (Number (timestamp record))),
                   (''recordType'', JString (recordType record)),
                   (''size'', JNumber (Number (size_field record)))])
               (enumerate 0 records))))))
       (log_and_rethrow ''Error getting accessible records:'')"

subsection \<open>The default export\<close>

text \<open>
  The module exports its operations as one object. To speak about "every record
  operation", \<open>perform\<close> selects the operation by the contract method it wraps and
  passes its arguments on; the results are kept under one type.
\<close>

datatype 't reply =
    Transaction 't
  | Boolean bool
  | Object object
  | Objects "object list"

definition returning :: "('a \<Rightarrow> 't reply) \<Rightarrow> ('e error + 'a) \<times> 'e session \<Rightarrow> ('e error + 't reply) \<times> 'e session" where
  "returning f r = (map_sum id f (fst r), snd r)"

fun perform :: "('e, 't) world \<Rightarrow> call \<Rightarrow> ('e, 't reply) js" where
  "perform w (Call_addRecord h t n) s = returning Transaction (addRecord w h t n s)"
| "perform w (Call_grantAccess i d) s = returning Transaction (grantAccess w i d s)"
| "perform w (Call_revokeAccess i d) s = returning Transaction (revokeAccess w i d s)"
| "perform w (Call_hasAccess i a) s = returning Boolean (hasAccess w i a s)"
| "perform w (Call_getRecord i) s = returning Object (getRecord w i s)"
| "perform w Call_getMyRecords s = returning Objects (getMyRecords w s)"
| "perform w Call_getAccessibleRecords s = returning Objects (getAccessibleRecords w s)"

text \<open>The message each operation writes to the console before it re-raises.\<close>

fun label :: "call \<Rightarrow> string" where
  "label (Call_addRecord h t n) = ''Error adding record to blockchain:''"
| "label (Call_grantAccess i d) = ''Error granting access:''"
| "label (Call_revokeAccess i d) = ''Error revoking access:''"
| "label (Call_hasAccess i a) = ''Error checking access:''"
| "label (Call_getRecord i) = ''Error getting record:''"
| "label Call_getMyRecords = ''Error getting my records:''"
| "label Call_getAccessibleRecords = ''Error getting accessible records:''"

text \<open>What one call of an operation adds to the trace.\<close>

definition effects_of :: "('e, 't) world \<Rightarrow> call \<Rightarrow> 'e session \<Rightarrow> 'e effect list" where
  "effects_of w op s = drop (length (trace s)) (trace (snd (perform w op s)))"

text \<open>The error a call ends with, if it fails.\<close>

definition error_of :: "('e error + 'a) \<times> 'e session \<Rightarrow> 'e error option" where
  "error_of r = (case fst r of Inl err \<Rightarrow> Some err | Inr _ \<Rightarrow> None)"

subsection \<open>The contract seen through its methods\<close>

text \<open>
  What the contract method behind an operation answers, before the operation shapes it:
  the typed answers of \<^typ>\<open>('e, 't) world\<close> under one type.
\<close>

datatype 't answer =
    RawTransaction 't
  | RawBoolean bool
  | RawRecord chain_record
  | RawRecords "chain_record list"

fun contract_method :: "('e, 't) world \<Rightarrow> string \<Rightarrow> call \<Rightarrow> 'e + 't answer" where
  "contract_method w a (Call_addRecord h t n) = map_sum id RawTransaction (contract_addRecord w a h t n)"
| "contract_method w a (Call_grantAccess i d) = map_sum id RawTransaction (contract_grantAccess w a i d)"
| "contract_method w a (Call_revokeAccess i d) = map_sum id RawTransaction (contract_revokeAccess w a i d)"
| "contract_method w a (Call_hasAccess i x) = map_sum id RawBoolean (contract_hasAccess w a i x)"
| "contract_method w a (Call_getRecord i) = map_sum id RawRecord (contract_getRecord w a i)"
| "contract_method w a Call_getMyRecords = map_sum id RawRecords (contract_getMyRecords w a)"
| "contract_method w a Call_getAccessibleRecords = map_sum id RawRecords (contract_getAccessibleRecords w a)"

subsection \<open>A concrete environment\<close>

text \<open>
  One record with small numbers and one whose integers are wider than a double's 53
  bits, behind a contract that answers every method, in a browser whose wallet grants
  the account request. Errors are strings, transactions are numbered.
\<close>

definition xray_record :: chain_record where
  "xray_record =
     \<lparr>ipfsHash = ''Qm123'', owner = ''0xPatient'', timestamp = 1000,
      recordType = ''xray'', size_field = 2048\<rparr>"

definition wide_record :: chain_record where
  "wide_record =
     \<lparr>ipfsHash = ''Qm456'', owner = ''0xOther'', timestamp = 9007199254740993,
      recordType = ''scan'', size_field = 9007199254740995\<rparr>"

definition demo_world :: "(string, nat) world" where
  "demo_world =
     \<lparr>browser = Wallet (Inr [''0xPatient'']),
      contract_addRecord = (\<lambda>a h t n. Inr 1),
      contract_grantAccess = (\<lambda>a i d. Inr 2),
      contract_revokeAccess = (\<lambda>a i d. Inl ''execution reverted''),
      contract_hasAccess = (\<lambda>a i x. Inr (x = ''0xDoctor'')),
      contract_getRecord = (\<lambda>a i. Inr wide_record),
      contract_getMyRecords = (\<lambda>a. Inr [xray_record]),
      contract_getAccessibleRecords = (\<lambda>a. Inr [xray_record, wide_record]),
      tx_wait = (\<lambda>tx. if tx = 1 then Inr () else Inl ''transaction failed'')\<rparr>"

text \<open>A session that has just loaded the module, and one with an address set.\<close>

definition loaded :: "string session" where
  "loaded = startup None Map.empty"

definition configured :: "string session" where
  "configured = setContractAddress demo_world ''0xABC'' loaded"

section \<open>Properties\<close>

subsection \<open>How a call proceeds\<close>

lemmas js_defs = js_return_def js_throw_def js_bind_def js_try_def emit_def external_def
  log_and_rethrow_def

text \<open>
  Every operation has the shape \<^verbatim>\<open>try { connect; instantiate; rest } catch { log; rethrow }\<close>.
  The next lemmas run that shape up to the contract handle, for any rest.
\<close>

lemma op_NoWindow:
  "browser w = NoWindow \<Longrightarrow>
   js_try (js_bind (getProviderAndSigner w) k) (log_and_rethrow l) s =
     (Inl ReferenceError, s\<lparr>trace := trace s @ [ConsoleError l ReferenceError]\<rparr>)"
  by (simp add: getProviderAndSigner_def js_defs)

lemma op_NoWallet:
  "browser w = NoWallet \<Longrightarrow>
   js_try (js_bind (getProviderAndSigner w) k) (log_and_rethrow l) s =
     (Inl MetaMaskNotInstalled, s\<lparr>trace := trace s @ [ConsoleError l MetaMaskNotInstalled]\<rparr>)"
  by (simp add: getProviderAndSigner_def js_defs)

lemma op_rejected:
  "browser w = Wallet (Inl e) \<Longrightarrow>
   js_try (js_bind (getProviderAndSigner w) k) (log_and_rethrow l) s =
     (Inl (RemoteError e),
      s\<lparr>trace := trace s @ [RequestAccounts, ConsoleError l (RemoteError e)]\<rparr>)"
  by (simp add: getProviderAndSigner_def js_defs)

lemma op_unset:
  "browser w = Wallet (Inr accts) \<Longrightarrow> contractAddress s = [] \<Longrightarrow>
   js_try (js_bind (getProviderAndSigner w) (\<lambda>(pr, sg). js_bind (getContract sg) k))
     (log_and_rethrow l) s =
     (Inl ContractAddressNotSet,
      s\<lparr>trace := trace s @ [RequestAccounts, NewWeb3Provider, GetSigner,
                              ConsoleError l ContractAddressNotSet]\<rparr>)"
  by (simp add: getProviderAndSigner_def getContract_def js_defs)

lemma op_connected:
  "browser w = Wallet (Inr accts) \<Longrightarrow> contractAddress s \<noteq> [] \<Longrightarrow>
   js_try (js_bind (getProviderAndSigner w) (\<lambda>(pr, sg). js_bind (getContract sg) k)) h s =
   js_try (k \<lparr>address = contractAddress s, contract_signer = JsonRpcSigner Web3Provider\<rparr>) h
     (s\<lparr>trace := trace s @ [RequestAccounts, NewWeb3Provider, GetSigner,
                             NewContract (contractAddress s)]\<rparr>)"
  by (simp add: getProviderAndSigner_def getContract_def js_defs)

lemmas op_defs = addRecord_def grantAccess_def revokeAccess_def hasAccess_def getRecord_def
  getMyRecords_def getAccessibleRecords_def

text \<open>The same for the seven operations at once.\<close>

lemma perform_NoWindow:
  "browser w = NoWindow \<Longrightarrow>
   perform w op s =
     (Inl ReferenceError, s\<lparr>trace := trace s @ [ConsoleError (label op) ReferenceError]\<rparr>)"
  by (cases op) (simp_all add: op_defs op_NoWindow returning_def)

lemma perform_NoWallet:
  "browser w = NoWallet \<Longrightarrow>
   perform w op s =
     (Inl MetaMaskNotInstalled,
      s\<lparr>trace := trace s @ [ConsoleError (label op) MetaMaskNotInstalled]\<rparr>)"
  by (cases op) (simp_all add: op_defs op_NoWallet returning_def)

lemma perform_rejected:
  "browser w = Wallet (Inl e) \<Longrightarrow>
   perform w op s =
     (Inl (RemoteError e),
      s\<lparr>trace := trace s @ [RequestAccounts, ConsoleError (label op) (RemoteError e)]\<rparr>)"
  by (cases op) (simp_all add: op_defs op_rejected returning_def)

lemma perform_unset:
  "browser w = Wallet (Inr accts) \<Longrightarrow> contractAddress s = [] \<Longrightarrow>
   perform w op s =
     (Inl ContractAddressNotSet,
      s\<lparr>trace := trace s @ [RequestAccounts, NewWeb3Provider, GetSigner,
                              ConsoleError (label op) ContractAddressNotSet]\<rparr>)"
  by (cases op) (simp_all add: op_defs op_unset returning_def)

lemma perform_method_fails:
  assumes "browser w = Wallet (Inr accts)" and "contractAddress s \<noteq> []"
    and "contract_method w (contractAddress s) op = Inl e"
  shows "perform w op s =
     (Inl (RemoteError e),
      s\<lparr>trace := trace s @ [RequestAccounts, NewWeb3Provider, GetSigner,
                 NewContract (contractAddress s), Invoke (contractAddress s) op,
                 ConsoleError (label op) (RemoteError e)]\<rparr>)"
  using assms
  by (cases op; simp add: op_defs op_connected returning_def split: sum.splits)
     (auto simp add: js_defs split: sum.splits)

lemma perform_wait_fails:
  assumes "browser w = Wallet (Inr accts)" and "contractAddress s \<noteq> []"
    and "contract_method w (contractAddress s) op = Inr (RawTransaction tx)"
    and "tx_wait w tx = Inl e"
  shows "perform w op s =
     (Inl (RemoteError e),
      s\<lparr>trace := trace s @ [RequestAccounts, NewWeb3Provider, GetSigner,
                 NewContract (contractAddress s), Invoke (contractAddress s) op, TxWait,
                 ConsoleError (label op) (RemoteError e)]\<rparr>)"
  using assms
  by (cases op; simp add: op_defs op_connected returning_def split: sum.splits)
     (auto simp add: js_defs split: sum.splits)

lemma perform_transaction:
  assumes "browser w = Wallet (Inr accts)" and "contractAddress s \<noteq> []"
    and "contract_method w (contractAddress s) op = Inr (RawTransaction tx)"
    and "tx_wait w tx = Inr u"
  shows "perform w op s =
     (Inr (Transaction tx),
      s\<lparr>trace := trace s @ [RequestAccounts, NewWeb3Provider, GetSigner,
                 NewContract (contractAddress s), Invoke (contractAddress s) op, TxWait]\<rparr>)"
  using assms
  by (cases op; simp add: op_defs op_connected returning_def split: sum.splits)
     (auto simp add: js_defs split: sum.splits)

lemma perform_query:
  assumes "browser w = Wallet (Inr accts)" and "contractAddress s \<noteq> []"
    and "contract_method w (contractAddress s) op = Inr x" and "\<forall>tx. x \<noteq> RawTransaction tx"
  shows "error_of (perform w op s) = None \<and> 
     snd (perform w op s) = 
      s\<lparr>trace := trace s @ [RequestAccounts, NewWeb3Provider, GetSigner,
                 NewContract (contractAddress s), Invoke (contractAddress s) op]\<rparr>"
  using assms
  by (cases op; simp add: op_defs op_connected returning_def error_of_def split: sum.splits)
     (auto simp add: js_defs split: sum.splits)


subsection \<open>Number returns doubles\<close>

lemma bit_length_upper: "n < 2 ^ bit_length n"
proof (induction n rule: bit_length.induct)
  case (1 n)
  show ?case
  proof (cases "n = 0")
    case True
    then show ?thesis by (simp add: bit_length.simps)
  next
    case False
    with 1 have "n div 2 < 2 ^ bit_length (n div 2)" by simp
    then have "n < 2 * 2 ^ bit_length (n div 2)" by linarith
    with False show ?thesis by (subst bit_length.simps) simp
  qed
qed

lemma bit_length_lower: "0 < n \<Longrightarrow> 2 ^ (bit_length n - 1) \<le> n"
proof (induction n rule: bit_length.induct)
  case (1 n)
  then have pos: "n \<noteq> 0" by simp
  show ?case
  proof (cases "n div 2 = 0")
    case True
    with pos have "n = 1" by linarith
    then show ?thesis by (simp add: bit_length.simps)
  next
    case False
    with 1 pos have ih: "2 ^ (bit_length (n div 2) - 1) \<le> n div 2" by simp
    from False have "bit_length (n div 2) \<noteq> 0" by (subst bit_length.simps) simp
    then have "bit_length n - 1 = Suc (bit_length (n div 2) - 1)"
      using pos by (subst bit_length.simps) simp
    with ih show ?thesis by simp
  qed
qed

lemma bit_length_unique:
  assumes "2 ^ k \<le> n" and "n < 2 ^ Suc k"
  shows "bit_length n = Suc k"
proof -
  from assms have pos: "0 < n" by (metis gr0I not_le zero_less_numeral zero_less_power)
  have "(2::nat) ^ k < 2 ^ bit_length n"
    using assms(1) bit_length_upper [of n] by linarith
  then have a: "k < bit_length n" by (simp add: power_strict_increasing_iff)
  have "(2::nat) ^ (bit_length n - 1) < 2 ^ Suc k"
    using assms(2) bit_length_lower [OF pos] by linarith
  then have "bit_length n - 1 < Suc k" by (simp only: power_strict_increasing_iff)
  with a show ?thesis by linarith
qed

lemma Number_small: "n < 2 ^ 53 \<Longrightarrow> Number n = Finite n"
  by (simp add: Number_def)

lemma is_double_Number: "is_double (Number n)"
proof (cases "n < 2 ^ 53")
  case True
  have "bit_length n \<le> 53"
  proof (cases "n = 0")
    case True
    then show ?thesis by (simp add: bit_length.simps)
  next
    case False
    then have "(2::nat) ^ (bit_length n - 1) < 2 ^ 53"
      using bit_length_lower [of n] True by linarith
    then have "bit_length n - 1 < 53" by (simp only: power_strict_increasing_iff)
    then show ?thesis by linarith
  qed
  moreover have "n < 2 ^ 1024"
  proof -
    have "(2::nat) ^ 53 \<le> 2 ^ 1024" by (rule power_increasing) simp_all
    with True show ?thesis by linarith
  qed
  ultimately show ?thesis using True by (simp add: Number_small)
next
  case False
  define e where "e = bit_length n - 53"
  define q where "q = n div 2 ^ e"
  define q' where "q' = (if 2 ^ e < 2 * (n mod 2 ^ e) \<or> (2 * (n mod 2 ^ e) = 2 ^ e \<and> odd q) then q + 1 else q)"
  define v where "v = q' * 2 ^ e"
  have N: "Number n = (if v < 2 ^ 1024 then Finite v else PosInfinity)"
    using False by (simp add: Number_def Let_def e_def q_def q'_def v_def)
  from False have pos: "0 < n" by (cases "n = 0") simp_all
  have "(2::nat) ^ 53 < 2 ^ bit_length n"
    using False bit_length_upper [of n] by linarith
  then have bl: "53 < bit_length n" by (simp only: power_strict_increasing_iff)
  then have ble: "bit_length n = e + 53" by (simp add: e_def)
  have "n < 2 ^ e * 2 ^ 53"
    using bit_length_upper [of n] by (simp add: ble power_add)
  then have q_hi: "q < 2 ^ 53"
    unfolding q_def by (simp add: less_mult_imp_div_less mult.commute)
  have "(2::nat) ^ 52 * 2 ^ e \<le> n"
    using bit_length_lower [OF pos] by (simp add: ble power_add mult.commute)
  then have q_lo: "2 ^ 52 \<le> q"
    unfolding q_def by (simp add: less_eq_div_iff_mult_less_eq)
  have q'_cases: "q' = q \<or> q' = q + 1" by (simp add: q'_def)
  show ?thesis
  proof (cases "v < 2 ^ 1024")
    case False
    with N show ?thesis by simp
  next
    case True
    have "v mod 2 ^ (bit_length v - 53) = 0"
    proof (cases "q' < 2 ^ 53")
      case True
      have lo: "2 ^ (52 + e) \<le> v"
        using q_lo q'_cases unfolding v_def power_add by (auto intro: mult_le_mono1)
      have "v < 2 ^ 53 * 2 ^ e" unfolding v_def using True by simp
      then have hi: "v < 2 ^ Suc (52 + e)" by (simp add: power_add)
      from bit_length_unique [OF lo hi] have "bit_length v - 53 = e" by simp
      then show ?thesis by (simp add: v_def)
    next
      case False
      with q_hi q'_cases have "q' = 2 ^ 53" by linarith
      then have veq: "v = 2 ^ (53 + e)" by (simp add: v_def power_add)
      then have "bit_length v = Suc (53 + e)" by (intro bit_length_unique) simp_all
      then have "bit_length v - 53 = Suc e" by simp
      then show ?thesis by (simp add: veq power_add)
    qed
    with N True show ?thesis by simp
  qed
qed

subsection \<open>The outcomes of a call\<close>

text \<open>Every call ends in one of eight ways; each fixes what was added to the trace.\<close>

lemma perform_outcomes:
  obtains
    (no_window) "browser w = NoWindow"
      "perform w op s = (Inl ReferenceError,
         s\<lparr>trace := trace s @ [ConsoleError (label op) ReferenceError]\<rparr>)"
  | (no_wallet) "browser w = NoWallet"
      "perform w op s = (Inl MetaMaskNotInstalled,
         s\<lparr>trace := trace s @ [ConsoleError (label op) MetaMaskNotInstalled]\<rparr>)"
  | (rejected) e where "browser w = Wallet (Inl e)"
      "perform w op s = (Inl (RemoteError e),
         s\<lparr>trace := trace s @ [RequestAccounts, ConsoleError (label op) (RemoteError e)]\<rparr>)"
  | (unset) accts where "browser w = Wallet (Inr accts)" "contractAddress s = []"
      "perform w op s = (Inl ContractAddressNotSet,
         s\<lparr>trace := trace s @ [RequestAccounts, NewWeb3Provider, GetSigner,
                                 ConsoleError (label op) ContractAddressNotSet]\<rparr>)"
  | (method_fails) accts e where "browser w = Wallet (Inr accts)" "contractAddress s \<noteq> []"
      "contract_method w (contractAddress s) op = Inl e"
      "perform w op s = (Inl (RemoteError e),
         s\<lparr>trace := trace s @ [RequestAccounts, NewWeb3Provider, GetSigner,
                 NewContract (contractAddress s), Invoke (contractAddress s) op,
                 ConsoleError (label op) (RemoteError e)]\<rparr>)"
  | (wait_fails) accts tx e where "browser w = Wallet (Inr accts)" "contractAddress s \<noteq> []"
      "contract_method w (contractAddress s) op = Inr (RawTransaction tx)"
      "tx_wait w tx = Inl e"
      "perform w op s = (Inl (RemoteError e),
         s\<lparr>trace := trace s @ [RequestAccounts, NewWeb3Provider, GetSigner,
                 NewContract (contractAddress s), Invoke (contractAddress s) op, TxWait,
                 ConsoleError (label op) (RemoteError e)]\<rparr>)"
  | (written) accts tx where "browser w = Wallet (Inr accts)" "contractAddress s \<noteq> []"
      "perform w op s = (Inr (Transaction tx),
         s\<lparr>trace := trace s @ [RequestAccounts, NewWeb3Provider, GetSigner,
                 NewContract (contractAddress s), Invoke (contractAddress s) op, TxWait]\<rparr>)"
  | (answered) accts where "browser w = Wallet (Inr accts)" "contractAddress s \<noteq> []"
      "error_of (perform w op s) = None"
      "snd (perform w op s) =
         s\<lparr>trace := trace s @ [RequestAccounts, NewWeb3Provider, GetSigner,
                 NewContract (contractAddress s), Invoke (contractAddress s) op]\<rparr>"
proof (cases "browser w")
  case NoWindow
  show ?thesis by (rule no_window [OF NoWindow perform_NoWindow [OF NoWindow]])
next
  case NoWallet
  show ?thesis by (rule no_wallet [OF NoWallet perform_NoWallet [OF NoWallet]])
next
  case (Wallet granted)
  show ?thesis
  proof (cases granted)
    case (Inl e)
    with Wallet have br: "browser w = Wallet (Inl e)" by simp
    show ?thesis by (rule rejected [OF br perform_rejected [OF br]])
  next
    case (Inr accts)
    with Wallet have br: "browser w = Wallet (Inr accts)" by simp
    show ?thesis
    proof (cases "contractAddress s = []")
      case True
      show ?thesis by (rule unset [OF br True perform_unset [OF br True]])
    next
      case False
      show ?thesis
      proof (cases "contract_method w (contractAddress s) op")
        case (Inl e)
        show ?thesis
          by (rule method_fails [OF br False Inl perform_method_fails [OF br False Inl]])
      next
        case (Inr x)
        show ?thesis
        proof (cases "\<exists>tx. x = RawTransaction tx")
          case True
          then obtain tx where "x = RawTransaction tx" ..
          with Inr have x: "contract_method w (contractAddress s) op = Inr (RawTransaction tx)"
            by simp
          show ?thesis
          proof (cases "tx_wait w tx")
            case (Inl e)
            show ?thesis
              by (rule wait_fails [OF br False x Inl perform_wait_fails [OF br False x Inl]])
          next
            case (Inr u)
            show ?thesis
              by (rule written [OF br False perform_transaction [OF br False x Inr]])
          qed
        next
          case False
          then have no_tx: "\<forall>tx. x \<noteq> RawTransaction tx" by simp
          note q = perform_query [OF br \<open>contractAddress s \<noteq> []\<close> Inr no_tx]
          show ?thesis
            by (rule answered [OF br \<open>contractAddress s \<noteq> []\<close> conjunct1 [OF q] conjunct2 [OF q]])
        qed
      qed
    qed
  qed
qed

subsection \<open>Facts about the concrete environment\<close>

lemma demo_browser: "browser demo_world = Wallet (Inr [''0xPatient''])"
  by (simp add: demo_world_def)

lemma loaded_address: "contractAddress loaded = []"
  by (simp add: loaded_def startup_def)

lemma configured_address: "contractAddress configured = ''0xABC''"
  by (simp add: configured_def setContractAddress_def demo_world_def)

lemma configured_trace: "trace configured = []"
  by (simp add: configured_def setContractAddress_def demo_world_def loaded_def startup_def)

subsection \<open>Failing calls\<close>

text \<open>
  C1, as the code has it. With the contract address unset, every record operation fails
  and neither invokes a contract method nor waits for a transaction. The wallet's
  account request comes first all the same: when the wallet grants it, the operation
  fails with the configuration error, having issued that request, built provider and
  signer, and written the error to the console.
\<close>

theorem unset_address_fails_after_wallet_request:
  assumes "contractAddress s = []"
  shows "error_of (perform w op s) \<noteq> None
     \<and> (\<forall>ev \<in> set (effects_of w op s). \<not> is_Invoke ev \<and> ev \<noteq> TxWait)
     \<and> (\<forall>accts. browser w = Wallet (Inr accts) \<longrightarrow>
           error_of (perform w op s) = Some ContractAddressNotSet
         \<and> effects_of w op s =
             [RequestAccounts, NewWeb3Provider, GetSigner,
              ConsoleError (label op) ContractAddressNotSet])"
proof (cases w op s rule: perform_outcomes)
  case no_window
  then show ?thesis by (simp add: error_of_def effects_of_def)
next
  case no_wallet
  then show ?thesis by (simp add: error_of_def effects_of_def)
next
  case (rejected e)
  then show ?thesis by (simp add: error_of_def effects_of_def)
next
  case (unset accts)
  then show ?thesis by (simp add: error_of_def effects_of_def)
qed (use assms in simp_all)

theorem unset_address_fails_after_wallet_request_witness:
  "contractAddress loaded = []
   \<and> error_of (perform demo_world Call_getMyRecords loaded) = Some ContractAddressNotSet
   \<and> effects_of demo_world Call_getMyRecords loaded =
       [RequestAccounts, NewWeb3Provider, GetSigner,
        ConsoleError ''Error getting my records:'' ContractAddressNotSet]
   \<and> filter is_Invoke (effects_of demo_world Call_getMyRecords loaded) = []"
  using unset_address_fails_after_wallet_request [OF loaded_address, of demo_world Call_getMyRecords]
    loaded_address demo_browser
  by simp

text \<open>
  C1 as stated does not hold: with the address unset and a wallet installed,
  \<^verbatim>\<open>addRecord\<close> issues the account request, a network interaction, before it fails.
\<close>

theorem wallet_request_precedes_address_check:
  "contractAddress loaded = []
   \<and> RequestAccounts \<in> set (trace (snd (addRecord demo_world ''Qm123'' ''xray'' 2048 loaded)))
   \<and> is_network (RequestAccounts :: string effect)"
  by (simp add: addRecord_def op_unset [OF demo_browser loaded_address] loaded_address)

text \<open>
  C2. When the wallet rejects the account request with an error, every record operation
  rejects with that error; the call's only effects are the request and the console
  message, so no contract method is invoked.
\<close>

theorem rejected_wallet_prompt_propagates:
  assumes "browser w = Wallet (Inl e)"
  shows "error_of (perform w op s) = Some (RemoteError e)
     \<and> effects_of w op s = [RequestAccounts, ConsoleError (label op) (RemoteError e)]
     \<and> (\<forall>ev \<in> set (effects_of w op s). \<not> is_Invoke ev)"
  by (simp add: perform_rejected [OF assms] error_of_def effects_of_def)

theorem rejected_wallet_prompt_propagates_witness:
  "browser (demo_world\<lparr>browser := Wallet (Inl ''User rejected the request.'')\<rparr>)
     = Wallet (Inl ''User rejected the request.'')
   \<and> error_of (perform (demo_world\<lparr>browser := Wallet (Inl ''User rejected the request.'')\<rparr>)
         (Call_addRecord ''Qm123'' ''xray'' 2048) configured)
     = Some (RemoteError ''User rejected the request.'')
   \<and> effects_of (demo_world\<lparr>browser := Wallet (Inl ''User rejected the request.'')\<rparr>)
         (Call_addRecord ''Qm123'' ''xray'' 2048) configured
     = [RequestAccounts,
        ConsoleError ''Error adding record to blockchain:''
          (RemoteError ''User rejected the request.'')]"
  using rejected_wallet_prompt_propagates
    [of "demo_world\<lparr>browser := Wallet (Inl ''User rejected the request.'')\<rparr>"
        "''User rejected the request.''" "Call_addRecord ''Qm123'' ''xray'' 2048" configured]
  by simp


text \<open>
  C3. A call never changes the contract address or the stored value. Whatever fails
  first decides the error, and the operation ends with exactly that error: the missing
  wallet's, the error the wallet rejected the request with, the configuration error, the
  error the contract method rejected with, or the one \<^verbatim>\<open>tx.wait()\<close> rejected with.
  A failed call ends by writing that same error to the console, and no effect occurs
  twice in it: nothing is retried.
\<close>

theorem errors_propagate_unmodified:
  "contractAddress (snd (perform w op s)) = contractAddress s
   \<and> localStorage (snd (perform w op s)) = localStorage s
   \<and> (browser w = NoWindow \<longrightarrow> error_of (perform w op s) = Some ReferenceError)
   \<and> (browser w = NoWallet \<longrightarrow> error_of (perform w op s) = Some MetaMaskNotInstalled)
   \<and> (browser w = Wallet (Inl e) \<longrightarrow> error_of (perform w op s) = Some (RemoteError e))
   \<and> (browser w = Wallet (Inr accts) \<and> contractAddress s = [] \<longrightarrow>
         error_of (perform w op s) = Some ContractAddressNotSet)
   \<and> (browser w = Wallet (Inr accts) \<and> contractAddress s \<noteq> []
        \<and> contract_method w (contractAddress s) op = Inl e \<longrightarrow>
         error_of (perform w op s) = Some (RemoteError e))
   \<and> (browser w = Wallet (Inr accts) \<and> contractAddress s \<noteq> []
        \<and> contract_method w (contractAddress s) op = Inr (RawTransaction tx)
        \<and> tx_wait w tx = Inl e \<longrightarrow>
         error_of (perform w op s) = Some (RemoteError e))
   \<and> (\<forall>err. error_of (perform w op s) = Some err \<longrightarrow>
         last (effects_of w op s) = ConsoleError (label op) err
       \<and> distinct (effects_of w op s))"
proof -
  have frame: "contractAddress (snd (perform w op s)) = contractAddress s
      \<and> localStorage (snd (perform w op s)) = localStorage s"
    by (cases w op s rule: perform_outcomes) simp_all
  have logged: "\<forall>err. error_of (perform w op s) = Some err \<longrightarrow>
         last (effects_of w op s) = ConsoleError (label op) err
       \<and> distinct (effects_of w op s)"
    by (cases w op s rule: perform_outcomes) (simp_all add: error_of_def effects_of_def)
  show ?thesis
    using frame logged
    by (simp add: perform_NoWindow perform_NoWallet perform_rejected perform_unset
        perform_method_fails perform_wait_fails error_of_def)
qed

lemma configured_storage: "localStorage configured storage_key = Some ''0xABC''"
  by (simp add: configured_def setContractAddress_def demo_world_def)

theorem errors_propagate_unmodified_witness:
  "error_of (perform demo_world (Call_revokeAccess 0 ''0xDoctor'') configured)
     = Some (RemoteError ''execution reverted'')
   \<and> last (effects_of demo_world (Call_revokeAccess 0 ''0xDoctor'') configured)
     = ConsoleError ''Error revoking access:'' (RemoteError ''execution reverted'')
   \<and> contractAddress (snd (perform demo_world (Call_revokeAccess 0 ''0xDoctor'') configured))
     = ''0xABC''
   \<and> localStorage (snd (perform demo_world (Call_revokeAccess 0 ''0xDoctor'') configured))
       storage_key = Some ''0xABC''
   \<and> error_of (perform demo_world (Call_grantAccess 0 ''0xDoctor'') configured)
     = Some (RemoteError ''transaction failed'')
   \<and> error_of (perform (demo_world\<lparr>browser := NoWallet\<rparr>) Call_getMyRecords configured)
     = Some MetaMaskNotInstalled
   \<and> error_of (perform demo_world (Call_getRecord 0) loaded) = Some ContractAddressNotSet
   \<and> error_of (perform (demo_world\<lparr>browser := NoWindow\<rparr>) Call_getMyRecords configured)
     = Some ReferenceError
   \<and> error_of (perform (demo_world\<lparr>browser := Wallet (Inl ''User rejected the request.'')\<rparr>)
        Call_getMyRecords configured)
     = Some (RemoteError ''User rejected the request.'')"
proof -
  have reverted: "contract_method demo_world ''0xABC'' (Call_revokeAccess 0 ''0xDoctor'')
      = Inl ''execution reverted''"
    by (simp add: demo_world_def)
  have sent: "contract_method demo_world ''0xABC'' (Call_grantAccess 0 ''0xDoctor'')
      = Inr (RawTransaction 2)"
    by (simp add: demo_world_def)
  have stuck: "tx_wait demo_world 2 = Inl ''transaction failed''"
    by (simp add: demo_world_def)
  show ?thesis
    using errors_propagate_unmodified
        [where w = demo_world and op = "Call_revokeAccess 0 ''0xDoctor''" and s = configured
           and e = "''execution reverted''" and accts = "[''0xPatient'']"]
      errors_propagate_unmodified
        [where w = demo_world and op = "Call_grantAccess 0 ''0xDoctor''" and s = configured
           and e = "''transaction failed''" and accts = "[''0xPatient'']" and tx = 2]
      errors_propagate_unmodified
        [where w = "demo_world\<lparr>browser := NoWallet\<rparr>" and op = Call_getMyRecords
           and s = configured]
      errors_propagate_unmodified
        [where w = demo_world and op = "Call_getRecord 0" and s = loaded
           and accts = "[''0xPatient'']"]
      errors_propagate_unmodified
        [where w = "demo_world\<lparr>browser := NoWindow\<rparr>" and op = Call_getMyRecords
           and s = configured]
      errors_propagate_unmodified
        [where w = "demo_world\<lparr>browser := Wallet (Inl ''User rejected the request.'')\<rparr>"
           and op = Call_getMyRecords and s = configured
           and e = "''User rejected the request.''"]
    by (simp del: perform.simps contract_method.simps
        add: demo_browser configured_address configured_storage loaded_address
          reverted sent stuck)
qed

subsection \<open>The order of effects within a call\<close>

lemma sole_invoke:
  assumes "xs = pre @ Invoke a c # post"
    and "\<forall>ev \<in> set pre. \<not> is_Invoke ev" and "\<forall>ev \<in> set post. \<not> is_Invoke ev"
    and "i < length xs" and "is_Invoke (xs ! i)"
  shows "take i xs = pre \<and> xs ! i = Invoke a c"
proof -
  have "i = length pre"
  proof (rule ccontr)
    assume ne: "i \<noteq> length pre"
    show False
    proof (cases "i < length pre")
      case True
      then have "xs ! i \<in> set pre" using assms(1) by (simp add: nth_append)
      with assms(2,5) show False by blast
    next
      case False
      with ne have gt: "length pre < i" by simp
      then have "xs ! i = post ! (i - Suc (length pre))"
        using assms(1) by (simp add: nth_append nth_Cons')
      moreover have "i - Suc (length pre) < length post"
        using gt assms(1,4) by simp
      ultimately have "xs ! i \<in> set post" by simp
      with assms(3,5) show False by blast
    qed
  qed
  with assms(1) show ?thesis by simp
qed

lemma no_invoke:
  assumes "\<forall>ev \<in> set xs. \<not> is_Invoke ev" and "i < length xs"
  shows "\<not> is_Invoke (xs ! i)"
  using assms by simp

text \<open>
  C7. What a call adds to the trace comes after everything earlier calls left there. If
  a contract method is invoked in a call, then the address is non-empty, the wallet
  granted the account request, and the effects of this call before the invocation are
  exactly: account request, new provider, signer, new contract handle for the current
  address. The invocation goes to that address. The session keeps no provider, signer or
  handle, so a later call goes through all of it again.
\<close>

theorem contract_invoked_only_after_address_and_signer:
  "trace (snd (perform w op s)) = trace s @ effects_of w op s
   \<and> (\<forall>i < length (effects_of w op s). is_Invoke (effects_of w op s ! i) \<longrightarrow>
        contractAddress s \<noteq> []
      \<and> (\<exists>accts. browser w = Wallet (Inr accts))
      \<and> take i (effects_of w op s) =
          [RequestAccounts, NewWeb3Provider, GetSigner, NewContract (contractAddress s)]
      \<and> effects_of w op s ! i = Invoke (contractAddress s) op)"
proof -
  let ?pre = "[RequestAccounts, NewWeb3Provider, GetSigner, NewContract (contractAddress s)]
                :: 'a effect list"
  have new: "trace (snd (perform w op s)) = trace s @ effects_of w op s"
    by (cases w op s rule: perform_outcomes) (simp_all add: effects_of_def)
  have "is_Invoke (effects_of w op s ! i) \<longrightarrow>
        contractAddress s \<noteq> []
      \<and> (\<exists>accts. browser w = Wallet (Inr accts))
      \<and> take i (effects_of w op s) = ?pre
      \<and> effects_of w op s ! i = Invoke (contractAddress s) op"
    if i: "i < length (effects_of w op s)" for i
  proof (cases w op s rule: perform_outcomes)
    case no_window
    then have "effects_of w op s = [ConsoleError (label op) ReferenceError]"
      by (simp add: effects_of_def)
    with i show ?thesis by simp
  next
    case no_wallet
    then have "effects_of w op s = [ConsoleError (label op) MetaMaskNotInstalled]"
      by (simp add: effects_of_def)
    with i show ?thesis by simp
  next
    case (rejected e)
    then have "effects_of w op s = [RequestAccounts, ConsoleError (label op) (RemoteError e)]"
      by (simp add: effects_of_def)
    then have "\<forall>ev \<in> set (effects_of w op s). \<not> is_Invoke ev" by simp
    from no_invoke [OF this i] show ?thesis by simp
  next
    case (unset accts)
    then have "effects_of w op s = [RequestAccounts, NewWeb3Provider, GetSigner,
        ConsoleError (label op) ContractAddressNotSet]"
      by (simp add: effects_of_def)
    then have "\<forall>ev \<in> set (effects_of w op s). \<not> is_Invoke ev" by simp
    from no_invoke [OF this i] show ?thesis by simp
  next
    case (method_fails accts e)
    then have "effects_of w op s =
        ?pre @ Invoke (contractAddress s) op # [ConsoleError (label op) (RemoteError e)]"
      by (simp add: effects_of_def)
    from sole_invoke [OF this _ _ i] method_fails(1,2) show ?thesis by simp
  next
    case (wait_fails accts tx e)
    then have "effects_of w op s =
        ?pre @ Invoke (contractAddress s) op # [TxWait, ConsoleError (label op) (RemoteError e)]"
      by (simp add: effects_of_def)
    from sole_invoke [OF this _ _ i] wait_fails(1,2) show ?thesis by simp
  next
    case (written accts tx)
    then have "effects_of w op s = ?pre @ Invoke (contractAddress s) op # [TxWait]"
      by (simp add: effects_of_def)
    from sole_invoke [OF this _ _ i] written(1,2) show ?thesis by simp
  next
    case (answered accts)
    then have "effects_of w op s = ?pre @ Invoke (contractAddress s) op # []"
      by (simp add: effects_of_def)
    from sole_invoke [OF this _ _ i] answered(1,2) show ?thesis by simp
  qed
  with new show ?thesis by blast
qed

theorem contract_invoked_only_after_address_and_signer_witness:
  "effects_of demo_world (Call_hasAccess 0 ''0xDoctor'')
       (snd (perform demo_world Call_getMyRecords configured)) ! 4
     = Invoke ''0xABC'' (Call_hasAccess 0 ''0xDoctor'')
   \<and> take 4 (effects_of demo_world (Call_hasAccess 0 ''0xDoctor'')
       (snd (perform demo_world Call_getMyRecords configured)))
     = [RequestAccounts, NewWeb3Provider, GetSigner, NewContract ''0xABC'']
   \<and> trace (snd (perform demo_world Call_getMyRecords configured))
     = [RequestAccounts, NewWeb3Provider, GetSigner, NewContract ''0xABC'',
        Invoke ''0xABC'' Call_getMyRecords]"
proof -
  define s1 where "s1 = snd (perform demo_world Call_getMyRecords configured)"
  have nonempty: "contractAddress configured \<noteq> []" by (simp add: configured_address)
  have listed: "contract_method demo_world (contractAddress configured) Call_getMyRecords
      = Inr (RawRecords [xray_record])"
    by (simp add: demo_world_def)
  have first: "s1 = configured\<lparr>trace := [RequestAccounts, NewWeb3Provider, GetSigner,
      NewContract ''0xABC'', Invoke ''0xABC'' Call_getMyRecords]\<rparr>"
    using perform_query [OF demo_browser nonempty listed]
    by (simp del: perform.simps add: s1_def configured_address configured_trace)
  then have addr1: "contractAddress s1 = ''0xABC''" by (simp add: configured_address)
  then have nonempty1: "contractAddress s1 \<noteq> []" by simp
  have asked: "contract_method demo_world (contractAddress s1) (Call_hasAccess 0 ''0xDoctor'')
      = Inr (RawBoolean True)"
    by (simp add: demo_world_def)
  have second: "effects_of demo_world (Call_hasAccess 0 ''0xDoctor'') s1
      = [RequestAccounts, NewWeb3Provider, GetSigner, NewContract ''0xABC'',
         Invoke ''0xABC'' (Call_hasAccess 0 ''0xDoctor'')]"
    using perform_query [OF demo_browser nonempty1 asked]
    by (simp del: perform.simps add: effects_of_def addr1)
  have "4 < length (effects_of demo_world (Call_hasAccess 0 ''0xDoctor'') s1)"
    and "is_Invoke (effects_of demo_world (Call_hasAccess 0 ''0xDoctor'') s1 ! 4)"
    by (simp_all add: second)
  with contract_invoked_only_after_address_and_signer
    [of demo_world "Call_hasAccess 0 ''0xDoctor''" s1]
  have "take 4 (effects_of demo_world (Call_hasAccess 0 ''0xDoctor'') s1) =
          [RequestAccounts, NewWeb3Provider, GetSigner, NewContract (contractAddress s1)]
      \<and> effects_of demo_world (Call_hasAccess 0 ''0xDoctor'') s1 ! 4 =
          Invoke (contractAddress s1) (Call_hasAccess 0 ''0xDoctor'')"
    by blast
  then have "take 4 (effects_of demo_world (Call_hasAccess 0 ''0xDoctor'') s1) =
          [RequestAccounts, NewWeb3Provider, GetSigner, NewContract ''0xABC'']
      \<and> effects_of demo_world (Call_hasAccess 0 ''0xDoctor'') s1 ! 4 =
          Invoke ''0xABC'' (Call_hasAccess 0 ''0xDoctor'')"
    by (simp only: addr1)
  moreover have "trace s1 = [RequestAccounts, NewWeb3Provider, GetSigner,
      NewContract ''0xABC'', Invoke ''0xABC'' Call_getMyRecords]"
    by (simp add: first)
  ultimately show ?thesis
    unfolding s1_def by (simp del: perform.simps)
qed

subsection \<open>Persistence\<close>

text \<open>
  C4, as the code has it. In a browser, a non-empty address set with
  \<^verbatim>\<open>setContractAddress\<close> is what \<^verbatim>\<open>initContractAddress\<close> restores in a fresh
  session that kept the storage. The empty string is stored but not restored: the fresh
  session keeps the default of its environment.
\<close>

theorem address_round_trip_through_storage:
  assumes "browser w \<noteq> NoWindow" and "browser w' \<noteq> NoWindow"
  shows "(a \<noteq> [] \<longrightarrow>
          contractAddress
            (initContractAddress w' (startup env (localStorage (setContractAddress w a s)))) = a)
     \<and> (a = [] \<longrightarrow>
          contractAddress
            (initContractAddress w' (startup env (localStorage (setContractAddress w a s))))
          = (case env of None \<Rightarrow> [] | Some v \<Rightarrow> v))"
  using assms
  by (auto simp add: initContractAddress_def setContractAddress_def startup_def Let_def
      split: option.splits)

theorem address_round_trip_through_storage_witness:
  "contractAddress
     (initContractAddress demo_world
        (startup (Some ''0xDEF'') (localStorage (setContractAddress demo_world ''0xABC'' loaded)))
      :: string session) = ''0xABC''
   \<and> contractAddress
     (initContractAddress demo_world
        (startup (Some ''0xDEF'') (localStorage (setContractAddress demo_world [] configured)))
      :: string session) = ''0xDEF''"
proof -
  have "browser demo_world \<noteq> NoWindow" by (simp add: demo_browser)
  from address_round_trip_through_storage [OF this this, of "''0xABC''" "Some ''0xDEF''" loaded]
    address_round_trip_through_storage [OF this this, of "[]" "Some ''0xDEF''" configured]
  show ?thesis by simp
qed

text \<open>
  C4 as stated does not hold for the empty string: where the environment supplies a
  default, setting the empty address and restoring in a fresh session yields the
  default, not the empty string.
\<close>

theorem empty_address_is_not_restored:
  "contractAddress
     (initContractAddress demo_world
        (startup (Some ''0xDEF'') (localStorage (setContractAddress demo_world [] loaded)))
      :: string session) \<noteq> []"
  by (simp add: initContractAddress_def setContractAddress_def startup_def demo_browser
      storage_key_def loaded_def)

text \<open>
  C8. On loading, the address is the environment's value, or empty without one.
  \<^verbatim>\<open>initContractAddress\<close> changes the address only in a browser whose storage holds
  the value it then takes; with nothing stored it changes nothing; a stored non-empty
  value is taken.
\<close>

theorem startup_default_and_restore:
  "contractAddress (startup env stored) = (case env of None \<Rightarrow> [] | Some v \<Rightarrow> v)
   \<and> (contractAddress (initContractAddress w s) \<noteq> contractAddress s \<longrightarrow>
        browser w \<noteq> NoWindow
      \<and> localStorage s storage_key = Some (contractAddress (initContractAddress w s)))
   \<and> (localStorage s storage_key = None \<longrightarrow> initContractAddress w s = s)
   \<and> (browser w \<noteq> NoWindow \<and> localStorage s storage_key = Some v \<and> v \<noteq> [] \<longrightarrow>
        contractAddress (initContractAddress w s) = v)"
  by (auto simp add: initContractAddress_def startup_def split: option.splits)

theorem startup_default_and_restore_witness:
  "contractAddress (startup (Some ''0xDEF'') Map.empty :: string session) = ''0xDEF''
   \<and> contractAddress (startup None Map.empty :: string session) = []
   \<and> initContractAddress demo_world (startup (Some ''0xDEF'') Map.empty)
     = (startup (Some ''0xDEF'') Map.empty :: string session)
   \<and> contractAddress (initContractAddress demo_world configured) = ''0xABC''
   \<and> contractAddress (initContractAddress demo_world
        (startup (Some ''0xDEF'') [storage_key \<mapsto> ''0xABC''] :: string session)) = ''0xABC''"
  using startup_default_and_restore
      [where env = "Some ''0xDEF''" and stored = Map.empty and w = demo_world
         and s = "startup (Some ''0xDEF'') Map.empty :: string session"]
    startup_default_and_restore
      [where env = None and stored = Map.empty and w = demo_world and s = configured
         and v = "''0xABC''"]
    startup_default_and_restore
      [where env = None and stored = Map.empty and w = demo_world
         and s = "startup (Some ''0xDEF'') [storage_key \<mapsto> ''0xABC''] :: string session"
         and v = "''0xABC''"]
  by (simp add: demo_browser configured_storage startup_def)


subsection \<open>Queries\<close>

lemma hasAccess_answered:
  assumes "browser w = Wallet (Inr accts)" and "contractAddress s \<noteq> []"
  shows "fst (hasAccess w recordId addr s) =
     (case contract_hasAccess w (contractAddress s) recordId addr of
        Inl e \<Rightarrow> Inl (RemoteError e) | Inr b \<Rightarrow> Inr b)"
  by (simp add: hasAccess_def op_connected [OF assms]) (simp add: js_defs split: sum.splits)

lemma getRecord_answered:
  assumes "browser w = Wallet (Inr accts)" and "contractAddress s \<noteq> []"
  shows "fst (getRecord w recordId s) =
     (case contract_getRecord w (contractAddress s) recordId of
        Inl e \<Rightarrow> Inl (RemoteError e)
      | Inr r \<Rightarrow> Inr
          [(''ipfsHash'', JString (ipfsHash r)),
           (''owner'', JString (owner r)),
           (''timestamp'', JNumber (Number (timestamp r))),
           (''recordType'', JString (recordType r)),
           (''size'', JNumber (Number (size_field r)))])"
  by (simp add: getRecord_def op_connected [OF assms]) (simp add: js_defs split: sum.splits)

lemma getMyRecords_answered:
  assumes "browser w = Wallet (Inr accts)" and "contractAddress s \<noteq> []"
  shows "fst (getMyRecords w s) =
     (case contract_getMyRecords w (contractAddress s) of
        Inl e \<Rightarrow> Inl (RemoteError e)
      | Inr rs \<Rightarrow> Inr
          (map (\<lambda>(index, record).
                  [(''id'', JNumber (Finite index)),
                   (''ipfsHash'', JString (ipfsHash record)),
                   (''timestamp'', JNumber (Number (timestamp record))),
                   (''recordType'', JString (recordType record)),
                   (''size'', JNumber (Number (size_field record)))])
               (enumerate 0 rs)))"
  by (simp add: getMyRecords_def op_connected [OF assms]) (simp add: js_defs split: sum.splits)

lemma getAccessibleRecords_answered:
  assumes "browser w = Wallet (Inr accts)" and "contractAddress s \<noteq> []"
  shows "fst (getAccessibleRecords w s) =
     (case contract_getAccessibleRecords w (contractAddress s) of
        Inl e \<Rightarrow> Inl (RemoteError e)
      | Inr rs \<Rightarrow> Inr
          (map (\<lambda>(index, record).
                  [(''id'', JNumber (Finite index)),
                   (''ipfsHash'', JString (ipfsHash record)),
                   (''owner'', JString (owner record)),
                   (''timestamp'', JNumber (Number (timestamp record))),
                   (''recordType'', JString (recordType record)),
                   (''size'', JNumber (Number (size_field record)))])
               (enumerate 0 rs)))"
  by (simp add: getAccessibleRecords_def op_connected [OF assms])
     (simp add: js_defs split: sum.splits)

text \<open>An operation that did not get as far as its contract handle has failed.\<close>

lemma op_succeeds_connected:
  assumes "fst (js_try (js_bind (getProviderAndSigner w) (\<lambda>(pr, sg). js_bind (getContract sg) k))
                  (log_and_rethrow l) s) = Inr x"
  shows "(\<exists>accts. browser w = Wallet (Inr accts)) \<and> contractAddress s \<noteq> []"
proof (cases "browser w")
  case NoWindow
  from assms show ?thesis by (simp add: op_NoWindow [OF NoWindow])
next
  case NoWallet
  from assms show ?thesis by (simp add: op_NoWallet [OF NoWallet])
next
  case (Wallet granted)
  show ?thesis
  proof (cases granted)
    case (Inl e)
    with Wallet have "browser w = Wallet (Inl e)" by simp
    from assms show ?thesis by (simp add: op_rejected [OF \<open>browser w = Wallet (Inl e)\<close>])
  next
    case (Inr accts)
    with Wallet have br: "browser w = Wallet (Inr accts)" by simp
    have "contractAddress s \<noteq> []"
    proof
      assume "contractAddress s = []"
      from assms show False by (simp add: op_unset [OF br \<open>contractAddress s = []\<close>])
    qed
    with br show ?thesis by blast
  qed
qed

lemma number_1000: "Number 1000 = Finite 1000"
  by (simp add: Number_def)

lemma number_2048: "Number 2048 = Finite 2048"
  by (simp add: Number_def)

lemma bit_length_54: "bit_length 9007199254740993 = 54" "bit_length 9007199254740995 = 54"
proof -
  have "bit_length 9007199254740993 = Suc 53" by (rule bit_length_unique) simp_all
  then show "bit_length 9007199254740993 = 54" by simp
  have "bit_length 9007199254740995 = Suc 53" by (rule bit_length_unique) simp_all
  then show "bit_length 9007199254740995 = 54" by simp
qed

lemma number_wide:
  "Number 9007199254740993 = Finite 9007199254740992"
  "Number 9007199254740995 = Finite 9007199254740996"
  by (simp_all add: Number_def bit_length_54 Let_def)

text \<open>
  C9. With the wallet connected and the address set, \<^verbatim>\<open>hasAccess\<close> returns the
  boolean that the contract's \<^verbatim>\<open>hasAccess\<close> method answered for the same record
  and address. The local constant of the same name changes nothing.
\<close>

theorem hasAccess_returns_contract_answer:
  assumes "browser w = Wallet (Inr accts)" and "contractAddress s \<noteq> []"
    and "contract_hasAccess w (contractAddress s) recordId addr = Inr b"
  shows "fst (hasAccess w recordId addr s) = Inr b"
  by (simp add: hasAccess_answered [OF assms(1,2)] assms(3))

theorem hasAccess_returns_contract_answer_witness:
  "fst (hasAccess demo_world 0 ''0xDoctor'' configured) = Inr True
   \<and> fst (hasAccess demo_world 0 ''0xNurse'' configured) = Inr False"
proof -
  have nonempty: "contractAddress configured \<noteq> []" by (simp add: configured_address)
  have yes: "contract_hasAccess demo_world (contractAddress configured) 0 ''0xDoctor'' = Inr True"
    and no: "contract_hasAccess demo_world (contractAddress configured) 0 ''0xNurse'' = Inr False"
    by (simp_all add: demo_world_def)
  from hasAccess_returns_contract_answer [OF demo_browser nonempty yes]
    hasAccess_returns_contract_answer [OF demo_browser nonempty no]
  show ?thesis by simp
qed

text \<open>
  C6. For the record the contract returns, \<^verbatim>\<open>getRecord\<close> returns \<^verbatim>\<open>ipfsHash\<close>,
  \<^verbatim>\<open>owner\<close> and \<^verbatim>\<open>recordType\<close> as they are and \<^verbatim>\<open>timestamp\<close> and
  \<^verbatim>\<open>size\<close> through \<^verbatim>\<open>Number\<close>. Whatever the width of the integer, the result is
  a double; up to 53 bits it is the integer itself.
\<close>

theorem getRecord_returns_plain_numbers:
  assumes "browser w = Wallet (Inr accts)" and "contractAddress s \<noteq> []"
    and "contract_getRecord w (contractAddress s) recordId = Inr r"
  shows "fst (getRecord w recordId s) = Inr
           [(''ipfsHash'', JString (ipfsHash r)),
            (''owner'', JString (owner r)),
            (''timestamp'', JNumber (Number (timestamp r))),
            (''recordType'', JString (recordType r)),
            (''size'', JNumber (Number (size_field r)))]
     \<and> is_double (Number (timestamp r)) \<and> is_double (Number (size_field r))
     \<and> (timestamp r < 2 ^ 53 \<longrightarrow> Number (timestamp r) = Finite (timestamp r))
     \<and> (size_field r < 2 ^ 53 \<longrightarrow> Number (size_field r) = Finite (size_field r))"
  by (simp add: getRecord_answered [OF assms(1,2)] assms(3) is_double_Number Number_small)

theorem getRecord_returns_plain_numbers_witness:
  "fst (getRecord demo_world 7 configured) = Inr
     [(''ipfsHash'', JString ''Qm456''),
      (''owner'', JString ''0xOther''),
      (''timestamp'', JNumber (Finite 9007199254740992)),
      (''recordType'', JString ''scan''),
      (''size'', JNumber (Finite 9007199254740996))]
   \<and> is_double (Finite 9007199254740992) \<and> is_double (Finite 9007199254740996)
   \<and> fst (getRecord (demo_world\<lparr>contract_getRecord := \<lambda>a i. Inr xray_record\<rparr>) 7 configured)
     = Inr
     [(''ipfsHash'', JString ''Qm123''),
      (''owner'', JString ''0xPatient''),
      (''timestamp'', JNumber (Finite 1000)),
      (''recordType'', JString ''xray''),
      (''size'', JNumber (Finite 2048))]"
proof -
  have nonempty: "contractAddress configured \<noteq> []" by (simp add: configured_address)
  have wide: "contract_getRecord demo_world (contractAddress configured) 7 = Inr wide_record"
    by (simp add: demo_world_def)
  have br: "browser (demo_world\<lparr>contract_getRecord := \<lambda>a i. Inr xray_record\<rparr>)
      = Wallet (Inr [''0xPatient''])"
    by (simp add: demo_browser)
  have small: "contract_getRecord (demo_world\<lparr>contract_getRecord := \<lambda>a i. Inr xray_record\<rparr>)
      (contractAddress configured) 7 = Inr xray_record"
    by simp
  from getRecord_returns_plain_numbers [OF demo_browser nonempty wide]
    getRecord_returns_plain_numbers [OF br nonempty small]
  show ?thesis
    by (simp add: wide_record_def xray_record_def number_wide)
qed

text \<open>
  C5. For every list of records the contract returns, \<^verbatim>\<open>getMyRecords\<close> and
  \<^verbatim>\<open>getAccessibleRecords\<close> return a list of the same length whose element at
  position \<open>i\<close> has \<^verbatim>\<open>id\<close> \<open>i\<close>, whatever the records hold. In particular, after
  \<^verbatim>\<open>setContractAddress("0xABC")\<close>, a contract returning the one record
  \<^verbatim>\<open>{ipfsHash:"Qm123", timestamp:1000, recordType:"xray", size:2048}\<close> makes
  \<^verbatim>\<open>getMyRecords\<close> return
  \<^verbatim>\<open>[{id:0, ipfsHash:"Qm123", timestamp:1000, recordType:"xray", size:2048}]\<close>.
\<close>

theorem bulk_listings_number_by_position:
  assumes "browser w = Wallet (Inr accts)"
  shows "(contractAddress s \<noteq> [] \<and> contract_getMyRecords w (contractAddress s) = Inr rs \<longrightarrow>
          (case fst (getMyRecords w s) of
             Inl err \<Rightarrow> False
           | Inr objs \<Rightarrow> length objs = length rs
               \<and> (\<forall>i < length rs. map_of (objs ! i) ''id'' = Some (JNumber (Finite i)))))
     \<and> (contractAddress s \<noteq> [] \<and> contract_getAccessibleRecords w (contractAddress s) = Inr rs \<longrightarrow>
          (case fst (getAccessibleRecords w s) of
             Inl err \<Rightarrow> False
           | Inr objs \<Rightarrow> length objs = length rs
               \<and> (\<forall>i < length rs. map_of (objs ! i) ''id'' = Some (JNumber (Finite i)))))
     \<and> (contract_getMyRecords w ''0xABC'' =
            Inr [\<lparr>ipfsHash = ''Qm123'', owner = whose, timestamp = 1000,
                  recordType = ''xray'', size_field = 2048\<rparr>] \<longrightarrow>
          fst (getMyRecords w (setContractAddress w ''0xABC'' s)) =
            Inr [[(''id'', JNumber (Finite 0)),
                  (''ipfsHash'', JString ''Qm123''),
                  (''timestamp'', JNumber (Finite 1000)),
                  (''recordType'', JString ''xray''),
                  (''size'', JNumber (Finite 2048))]])"
proof (intro conjI impI)
  assume a: "contractAddress s \<noteq> [] \<and> contract_getMyRecords w (contractAddress s) = Inr rs"
  then show "case fst (getMyRecords w s) of
             Inl err \<Rightarrow> False
           | Inr objs \<Rightarrow> length objs = length rs
               \<and> (\<forall>i < length rs. map_of (objs ! i) ''id'' = Some (JNumber (Finite i)))"
    by (simp add: getMyRecords_answered [OF assms] nth_enumerate_eq)
next
  assume a: "contractAddress s \<noteq> []
      \<and> contract_getAccessibleRecords w (contractAddress s) = Inr rs"
  then show "case fst (getAccessibleRecords w s) of
             Inl err \<Rightarrow> False
           | Inr objs \<Rightarrow> length objs = length rs
               \<and> (\<forall>i < length rs. map_of (objs ! i) ''id'' = Some (JNumber (Finite i)))"
    by (simp add: getAccessibleRecords_answered [OF assms] nth_enumerate_eq)
next
  assume one: "contract_getMyRecords w ''0xABC'' =
            Inr [\<lparr>ipfsHash = ''Qm123'', owner = whose, timestamp = 1000,
                  recordType = ''xray'', size_field = 2048\<rparr>]"
  have addr: "contractAddress (setContractAddress w ''0xABC'' s) = ''0xABC''"
    by (simp add: setContractAddress_def Let_def)
  then have "contractAddress (setContractAddress w ''0xABC'' s) \<noteq> []" by simp
  from getMyRecords_answered [OF assms this]
  show "fst (getMyRecords w (setContractAddress w ''0xABC'' s)) =
            Inr [[(''id'', JNumber (Finite 0)),
                  (''ipfsHash'', JString ''Qm123''),
                  (''timestamp'', JNumber (Finite 1000)),
                  (''recordType'', JString ''xray''),
                  (''size'', JNumber (Finite 2048))]]"
    by (simp add: addr one enumerate_simps number_1000 number_2048)
qed

theorem bulk_listings_number_by_position_witness:
  "fst (getMyRecords demo_world (setContractAddress demo_world ''0xABC'' loaded)) =
     Inr [[(''id'', JNumber (Finite 0)),
           (''ipfsHash'', JString ''Qm123''),
           (''timestamp'', JNumber (Finite 1000)),
           (''recordType'', JString ''xray''),
           (''size'', JNumber (Finite 2048))]]
   \<and> (case fst (getAccessibleRecords demo_world configured) of
         Inl err \<Rightarrow> False
       | Inr objs \<Rightarrow> length objs = 2
           \<and> map_of (objs ! 0) ''id'' = Some (JNumber (Finite 0))
           \<and> map_of (objs ! 1) ''id'' = Some (JNumber (Finite 1)))
   \<and> (case fst (getMyRecords demo_world configured) of
         Inl err \<Rightarrow> False
       | Inr objs \<Rightarrow> length objs = 1
           \<and> map_of (objs ! 0) ''id'' = Some (JNumber (Finite 0)))"
proof -
  have nonempty: "contractAddress configured \<noteq> []" by (simp add: configured_address)
  have mine: "contract_getMyRecords demo_world ''0xABC'' =
      Inr [\<lparr>ipfsHash = ''Qm123'', owner = ''0xPatient'', timestamp = 1000,
            recordType = ''xray'', size_field = 2048\<rparr>]"
    by (simp add: demo_world_def xray_record_def)
  have shared: "contract_getAccessibleRecords demo_world (contractAddress configured) =
      Inr [xray_record, wide_record]"
    by (simp add: demo_world_def)
  note inst = bulk_listings_number_by_position [OF demo_browser]
  from inst [of configured "[xray_record, wide_record]" "''0xPatient''"] nonempty shared
  have "case fst (getAccessibleRecords demo_world configured) of
         Inl err \<Rightarrow> False
       | Inr objs \<Rightarrow> length objs = length [xray_record, wide_record]
           \<and> (\<forall>i < length [xray_record, wide_record].
                 map_of (objs ! i) ''id'' = Some (JNumber (Finite i)))"
    by blast
  then have "case fst (getAccessibleRecords demo_world configured) of
         Inl err \<Rightarrow> False
       | Inr objs \<Rightarrow> length objs = 2
           \<and> map_of (objs ! 0) ''id'' = Some (JNumber (Finite 0))
           \<and> map_of (objs ! 1) ''id'' = Some (JNumber (Finite 1))"
    by (auto split: sum.splits)
  moreover have "contract_getMyRecords demo_world (contractAddress configured) =
      Inr [xray_record]"
    by (simp add: demo_world_def)
  with inst [of configured "[xray_record]" "''0xPatient''"] nonempty
  have "case fst (getMyRecords demo_world configured) of
         Inl err \<Rightarrow> False
       | Inr objs \<Rightarrow> length objs = length [xray_record]
           \<and> (\<forall>i < length [xray_record].
                 map_of (objs ! i) ''id'' = Some (JNumber (Finite i)))"
    by blast
  then have "case fst (getMyRecords demo_world configured) of
         Inl err \<Rightarrow> False
       | Inr objs \<Rightarrow> length objs = 1
           \<and> map_of (objs ! 0) ''id'' = Some (JNumber (Finite 0))"
    by (auto split: sum.splits)
  moreover from inst [of loaded "[]" "''0xPatient''"] mine
  have "fst (getMyRecords demo_world (setContractAddress demo_world ''0xABC'' loaded)) =
     Inr [[(''id'', JNumber (Finite 0)),
           (''ipfsHash'', JString ''Qm123''),
           (''timestamp'', JNumber (Finite 1000)),
           (''recordType'', JString ''xray''),
           (''size'', JNumber (Finite 2048))]]"
    by blast
  ultimately show ?thesis by blast
qed

lemma getMyRecords_keys:
  assumes "fst (getMyRecords w s) = Inr objs" and "obj \<in> set objs"
  shows "map fst obj = [''id'', ''ipfsHash'', ''timestamp'', ''recordType'', ''size'']"
proof -
  from op_succeeds_connected [OF assms(1) [unfolded getMyRecords_def]]
  obtain accts where br: "browser w = Wallet (Inr accts)" and ne: "contractAddress s \<noteq> []"
    by blast
  show ?thesis
  proof (cases "contract_getMyRecords w (contractAddress s)")
    case (Inl e)
    with assms(1) show ?thesis by (simp add: getMyRecords_answered [OF br ne])
  next
    case (Inr rs)
    with assms show ?thesis by (auto simp add: getMyRecords_answered [OF br ne])
  qed
qed

lemma getAccessibleRecords_keys:
  assumes "fst (getAccessibleRecords w s) = Inr objs" and "obj \<in> set objs"
  shows "map fst obj = [''id'', ''ipfsHash'', ''owner'', ''timestamp'', ''recordType'', ''size'']"
proof -
  from op_succeeds_connected [OF assms(1) [unfolded getAccessibleRecords_def]]
  obtain accts where br: "browser w = Wallet (Inr accts)" and ne: "contractAddress s \<noteq> []"
    by blast
  show ?thesis
  proof (cases "contract_getAccessibleRecords w (contractAddress s)")
    case (Inl e)
    with assms(1) show ?thesis by (simp add: getAccessibleRecords_answered [OF br ne])
  next
    case (Inr rs)
    with assms show ?thesis by (auto simp add: getAccessibleRecords_answered [OF br ne])
  qed
qed

text \<open>
  C10. Every element of a successful \<^verbatim>\<open>getMyRecords\<close> has exactly the properties
  \<^verbatim>\<open>id\<close>, \<^verbatim>\<open>ipfsHash\<close>, \<^verbatim>\<open>timestamp\<close>, \<^verbatim>\<open>recordType\<close>, \<^verbatim>\<open>size\<close>, without
  \<^verbatim>\<open>owner\<close>; every element of a successful \<^verbatim>\<open>getAccessibleRecords\<close> has
  \<^verbatim>\<open>owner\<close> as well.
\<close>

theorem bulk_listings_differ_in_owner:
  "(fst (getMyRecords w s) = Inr objs \<longrightarrow>
      (\<forall>obj \<in> set objs.
         map fst obj = [''id'', ''ipfsHash'', ''timestamp'', ''recordType'', ''size'']))
   \<and> (fst (getAccessibleRecords w s) = Inr objs' \<longrightarrow>
      (\<forall>obj \<in> set objs'.
         map fst obj = [''id'', ''ipfsHash'', ''owner'', ''timestamp'', ''recordType'', ''size'']))"
  using getMyRecords_keys getAccessibleRecords_keys by blast

theorem bulk_listings_differ_in_owner_witness:
  "map (map fst) (projr (fst (getMyRecords demo_world configured)))
     = [[''id'', ''ipfsHash'', ''timestamp'', ''recordType'', ''size'']]
   \<and> map (map fst) (projr (fst (getAccessibleRecords demo_world configured)))
     = [[''id'', ''ipfsHash'', ''owner'', ''timestamp'', ''recordType'', ''size''],
        [''id'', ''ipfsHash'', ''owner'', ''timestamp'', ''recordType'', ''size'']]"
proof -
  have nonempty: "contractAddress configured \<noteq> []" by (simp add: configured_address)
  have mine: "contract_getMyRecords demo_world (contractAddress configured) = Inr [xray_record]"
    and shared: "contract_getAccessibleRecords demo_world (contractAddress configured) =
      Inr [xray_record, wide_record]"
    by (simp_all add: demo_world_def)
  define m :: object where "m = [(''id'', JNumber (Finite 0)),
      (''ipfsHash'', JString (ipfsHash xray_record)),
      (''timestamp'', JNumber (Number (timestamp xray_record))),
      (''recordType'', JString (recordType xray_record)),
      (''size'', JNumber (Number (size_field xray_record)))]"
  define a :: object where "a = [(''id'', JNumber (Finite 0)),
      (''ipfsHash'', JString (ipfsHash xray_record)),
      (''owner'', JString (owner xray_record)),
      (''timestamp'', JNumber (Number (timestamp xray_record))),
      (''recordType'', JString (recordType xray_record)),
      (''size'', JNumber (Number (size_field xray_record)))]"
  define b :: object where "b = [(''id'', JNumber (Finite 1)),
      (''ipfsHash'', JString (ipfsHash wide_record)),
      (''owner'', JString (owner wide_record)),
      (''timestamp'', JNumber (Number (timestamp wide_record))),
      (''recordType'', JString (recordType wide_record)),
      (''size'', JNumber (Number (size_field wide_record)))]"
  have m: "fst (getMyRecords demo_world configured) = Inr [m]"
    by (simp add: getMyRecords_answered [OF demo_browser nonempty] mine enumerate_simps m_def)
  have ab: "fst (getAccessibleRecords demo_world configured) = Inr [a, b]"
    by (simp add: getAccessibleRecords_answered [OF demo_browser nonempty] shared
        enumerate_simps a_def b_def)
  from bulk_listings_differ_in_owner [of demo_world configured "[m]" "[a, b]"] m ab
  show ?thesis by simp
qed

end
